theory Spec2Isabelle
  imports Main
begin

section \<open>The datacube index facade (datacube/index/index.py)\<close>

text \<open>
  The module is a facade over classes that live in other modules: the connection handle
  \<^verbatim>\<open>PostgresDb\<close>, the four resource managers, the function
  \<^verbatim>\<open>default_metadata_type_docs\<close> and the logger. Their behaviour is a parameter of
  the model (the record \<open>collab\<close> below), so a theorem stated for a collaborator record
  \<open>c\<close> holds for whatever these collaborators do. Python's effects are explicit:
  \<^item> a call takes the state and returns the new state together with either the raised
    exception (\<open>Inl\<close>) or the returned value (\<open>Inr\<close>); the state a raising call leaves
    behind is kept, as nothing in Python undoes it;
  \<^item> the state is the external world, changed only by the collaborators, and the list of
    the calls the facade has made so far, in program order.
\<close>

subsection \<open>Collaborators\<close>

type_synonym URL = string

text \<open>
  Modelled from the spec: the classes \<^verbatim>\<open>UserResource\<close>, \<^verbatim>\<open>MetadataTypeResource\<close>,
  \<^verbatim>\<open>ProductResource\<close> and \<^verbatim>\<open>DatasetResource\<close> are declared in other modules. The spec
  gives their constructors: the user registry and the metadata-type registry are
  constructed with the connection handle, the product registry with the connection handle
  and the metadata-type registry, the dataset registry with the connection handle and the
  product registry; construction performs no I/O. A manager is therefore the value of its
  constructor arguments.
\<close>

datatype 'db UserResource = UserResource 'db

datatype 'db MetadataTypeResource = MetadataTypeResource 'db

datatype 'db ProductResource = ProductResource 'db "'db MetadataTypeResource"

datatype 'db DatasetResource = DatasetResource 'db "'db ProductResource"

text \<open>The calls the facade makes, with their arguments.\<close>

datatype ('db, 'cfg, 'mt) call =
    Call_from_config 'cfg "string option" bool
      \<comment> \<open>\<^verbatim>\<open>PostgresDb.from_config(config, application_name=.., validate_connection=..)\<close>\<close>
  | New_UserResource 'db
  | New_MetadataTypeResource 'db
  | New_ProductResource 'db "'db MetadataTypeResource"
  | New_DatasetResource 'db "'db ProductResource"
  | Call_init 'db bool
      \<comment> \<open>\<^verbatim>\<open>db.init(with_permissions=..)\<close>\<close>
  | Call_info string
      \<comment> \<open>\<^verbatim>\<open>_LOG.info(..)\<close>\<close>
  | Call_add "'db MetadataTypeResource" 'mt bool
      \<comment> \<open>\<^verbatim>\<open>metadata_types.add(.., allow_table_lock=..)\<close>\<close>
  | Call_close 'db
      \<comment> \<open>\<^verbatim>\<open>db.close()\<close>\<close>

record ('w, 'db, 'cfg, 'mt) state =
  world :: 'w
  calls :: "('db, 'cfg, 'mt) call list"

text \<open>
  The behaviour of the collaborators, none of which is defined in this module:
  \<^item> \<open>db_from_config\<close>, \<open>db_init\<close> and \<open>db_close\<close> are \<^verbatim>\<open>PostgresDb.from_config\<close>,
    \<^verbatim>\<open>db.init\<close> and \<^verbatim>\<open>db.close\<close>; each may change the world and may raise;
  \<^item> \<open>db_url\<close> is the attribute read \<^verbatim>\<open>db.url\<close>; what it yields may depend on the world;
  \<^item> \<open>default_metadata_type_docs\<close> is the result of \<^verbatim>\<open>default_metadata_type_docs()\<close>,
    by the spec a fixed ordered set of built-in documents, here a list;
  \<^item> \<open>metadata_types_from_doc\<close> is \<^verbatim>\<open>metadata_types.from_doc\<close>, by the spec a parse of the
    document into the registry's input shape; it may raise;
  \<^item> \<open>metadata_types_add\<close> is \<^verbatim>\<open>metadata_types.add\<close>; it may change the world and may
    raise.
\<close>

record ('w, 'db, 'cfg, 'doc, 'mt, 'e) collab =
  db_from_config :: "'cfg \<Rightarrow> string option \<Rightarrow> bool \<Rightarrow> 'w \<Rightarrow> ('e + 'db) \<times> 'w"
  db_init :: "'db \<Rightarrow> bool \<Rightarrow> 'w \<Rightarrow> ('e + bool) \<times> 'w"
  db_close :: "'db \<Rightarrow> 'w \<Rightarrow> ('e + unit) \<times> 'w"
  db_url :: "'db \<Rightarrow> 'w \<Rightarrow> URL"
  default_metadata_type_docs :: "'doc list"
  metadata_types_from_doc :: "'db MetadataTypeResource \<Rightarrow> 'doc \<Rightarrow> 'e + 'mt"
  metadata_types_add :: "'db MetadataTypeResource \<Rightarrow> 'mt \<Rightarrow> bool \<Rightarrow> 'w \<Rightarrow> ('e + unit) \<times> 'w"

text \<open>Recording a call, and making a call to a collaborator that acts on the world.\<close>

definition record_call ::
  "('db, 'cfg, 'mt) call \<Rightarrow> ('w, 'db, 'cfg, 'mt) state \<Rightarrow> ('w, 'db, 'cfg, 'mt) state" where
  "record_call ev s = s\<lparr>calls := calls s @ [ev]\<rparr>"

definition invoke ::
  "('db, 'cfg, 'mt) call \<Rightarrow> ('w \<Rightarrow> ('e + 'a) \<times> 'w) \<Rightarrow> ('w, 'db, 'cfg, 'mt) state
    \<Rightarrow> ('e + 'a) \<times> ('w, 'db, 'cfg, 'mt) state" where
  "invoke ev f s =
     (case f (world s) of (r, w) \<Rightarrow> (r, (record_call ev s)\<lparr>world := w\<rparr>))"

subsection \<open>class Index\<close>

record 'db Index =
  Index_db :: 'db  \<comment> \<open>\<^verbatim>\<open>self._db\<close>\<close>
  users :: "'db UserResource"
  metadata_types :: "'db MetadataTypeResource"
  products :: "'db ProductResource"
  datasets :: "'db DatasetResource"

text \<open>\<^verbatim>\<open>Index.__init__(self, db)\<close>: four constructor calls, in the order of the source.\<close>

definition Index_init ::
  "'db \<Rightarrow> ('w, 'db, 'cfg, 'mt) state \<Rightarrow> 'db Index \<times> ('w, 'db, 'cfg, 'mt) state" where
  "Index_init d s =
     (let self_users = UserResource d;
          s1 = record_call (New_UserResource d) s;
          self_metadata_types = MetadataTypeResource d;
          s2 = record_call (New_MetadataTypeResource d) s1;
          self_products = ProductResource d self_metadata_types;
          s3 = record_call (New_ProductResource d self_metadata_types) s2;
          self_datasets = DatasetResource d self_products;
          s4 = record_call (New_DatasetResource d self_products) s3
      in (\<lparr>Index_db = d, users = self_users, metadata_types = self_metadata_types,
            products = self_products, datasets = self_datasets\<rparr>, s4))"

text \<open>The property \<^verbatim>\<open>Index.url\<close>: a read of the connection handle's attribute.\<close>

definition Index_url ::
  "('w, 'db, 'cfg, 'doc, 'mt, 'e) collab \<Rightarrow> 'db Index \<Rightarrow> ('w, 'db, 'cfg, 'mt) state \<Rightarrow> URL" where
  "Index_url c self s = db_url c (Index_db self) (world s)"

text \<open>
  \<^verbatim>\<open>Index.from_config(cls, config, application_name=None, validate_connection=True)\<close>.
  An omitted \<open>application_name\<close> is \<open>None\<close>, an omitted \<open>validate_connection\<close> is \<open>True\<close>.
\<close>

definition Index_from_config ::
  "('w, 'db, 'cfg, 'doc, 'mt, 'e) collab \<Rightarrow> 'cfg \<Rightarrow> string option \<Rightarrow> bool
    \<Rightarrow> ('w, 'db, 'cfg, 'mt) state \<Rightarrow> ('e + 'db Index) \<times> ('w, 'db, 'cfg, 'mt) state" where
  "Index_from_config c config application_name validate_connection s =
     (case invoke (Call_from_config config application_name validate_connection)
             (db_from_config c config application_name validate_connection) s of
        (Inl e, s1) \<Rightarrow> (Inl e, s1)
      | (Inr d, s1) \<Rightarrow> (case Index_init d s1 of (self, s2) \<Rightarrow> (Inr self, s2)))"

text \<open>
  The loop of \<^verbatim>\<open>init_db\<close>:
  \<^verbatim>\<open>for doc in default_metadata_type_docs():
      self.metadata_types.add(self.metadata_types.from_doc(doc), allow_table_lock=True)\<close>
  An exception of \<^verbatim>\<open>from_doc\<close> or of \<^verbatim>\<open>add\<close> ends the loop and is the loop's outcome.
\<close>

fun add_default_types ::
  "('w, 'db, 'cfg, 'doc, 'mt, 'e) collab \<Rightarrow> 'db Index \<Rightarrow> 'doc list
    \<Rightarrow> ('w, 'db, 'cfg, 'mt) state \<Rightarrow> ('e + unit) \<times> ('w, 'db, 'cfg, 'mt) state" where
  "add_default_types c self [] s = (Inr (), s)"
| "add_default_types c self (doc # docs) s =
     (case metadata_types_from_doc c (metadata_types self) doc of
        Inl e \<Rightarrow> (Inl e, s)
      | Inr t \<Rightarrow>
          (case invoke (Call_add (metadata_types self) t True)
                  (metadata_types_add c (metadata_types self) t True) s of
             (Inl e, s1) \<Rightarrow> (Inl e, s1)
           | (Inr u, s1) \<Rightarrow> add_default_types c self docs s1))"

text \<open>\<^verbatim>\<open>Index.init_db(self, with_default_types=True, with_permissions=True)\<close>.\<close>

definition Index_init_db ::
  "('w, 'db, 'cfg, 'doc, 'mt, 'e) collab \<Rightarrow> 'db Index \<Rightarrow> bool \<Rightarrow> bool
    \<Rightarrow> ('w, 'db, 'cfg, 'mt) state \<Rightarrow> ('e + bool) \<times> ('w, 'db, 'cfg, 'mt) state" where
  "Index_init_db c self with_default_types with_permissions s =
     (case invoke (Call_init (Index_db self) with_permissions)
             (db_init c (Index_db self) with_permissions) s of
        (Inl e, s1) \<Rightarrow> (Inl e, s1)
      | (Inr is_new, s1) \<Rightarrow>
          if is_new \<and> with_default_types then
            (case add_default_types c self (default_metadata_type_docs c)
                    (record_call (Call_info ''Adding default metadata types.'') s1) of
               (Inl e, s2) \<Rightarrow> (Inl e, s2)
             | (Inr u, s2) \<Rightarrow> (Inr is_new, s2))
          else (Inr is_new, s1))"

text \<open>\<^verbatim>\<open>Index.close(self)\<close>.\<close>

definition Index_close ::
  "('w, 'db, 'cfg, 'doc, 'mt, 'e) collab \<Rightarrow> 'db Index
    \<Rightarrow> ('w, 'db, 'cfg, 'mt) state \<Rightarrow> ('e + unit) \<times> ('w, 'db, 'cfg, 'mt) state" where
  "Index_close c self s = invoke (Call_close (Index_db self)) (db_close c (Index_db self)) s"

text \<open>
  The values a context manager's \<^verbatim>\<open>__exit__\<close> can hand back to the \<^verbatim>\<open>with\<close>
  statement, as far as the statement looks at them: their truth value. A method without a
  \<^verbatim>\<open>return\<close> statement returns \<^verbatim>\<open>None\<close>.
\<close>

datatype pyvalue = PyNone | PyBool bool

fun truthy :: "pyvalue \<Rightarrow> bool" where
  "truthy PyNone = False"
| "truthy (PyBool b) = b"

text \<open>\<^verbatim>\<open>Index.__enter__(self)\<close> and \<^verbatim>\<open>Index.__exit__(self, type_, value, traceback)\<close>. The three
  exception arguments are one \<open>'e option\<close>: \<open>None\<close> when the block completed.\<close>

definition Index_enter ::
  "'db Index \<Rightarrow> ('w, 'db, 'cfg, 'mt) state \<Rightarrow> ('e + 'db Index) \<times> ('w, 'db, 'cfg, 'mt) state" where
  "Index_enter self s = (Inr self, s)"

definition Index_exit ::
  "('w, 'db, 'cfg, 'doc, 'mt, 'e) collab \<Rightarrow> 'db Index \<Rightarrow> 'e option
    \<Rightarrow> ('w, 'db, 'cfg, 'mt) state \<Rightarrow> ('e + pyvalue) \<times> ('w, 'db, 'cfg, 'mt) state" where
  "Index_exit c self exc s =
     (case Index_close c self s of
        (Inl e, s1) \<Rightarrow> (Inl e, s1)
      | (Inr u, s1) \<Rightarrow> (Inr PyNone, s1))"

text \<open>
  Python's \<^verbatim>\<open>with mgr as v: block\<close>. \<^verbatim>\<open>__enter__\<close> runs first and its value is bound to
  \<open>v\<close>. When the block completes, \<^verbatim>\<open>__exit__(None, None, None)\<close> runs. When the block
  raises, \<^verbatim>\<open>__exit__\<close> runs with the exception, which is raised again unless
  \<^verbatim>\<open>__exit__\<close> returns a true value; then the statement completes, here with \<open>None\<close>.
  An exception of \<^verbatim>\<open>__exit__\<close> itself is the outcome of the statement.
\<close>

definition with_stmt ::
  "('s \<Rightarrow> ('e + 'v) \<times> 's) \<Rightarrow> ('e option \<Rightarrow> 's \<Rightarrow> ('e + pyvalue) \<times> 's)
    \<Rightarrow> ('v \<Rightarrow> 's \<Rightarrow> ('e + 'a) \<times> 's) \<Rightarrow> 's \<Rightarrow> ('e + 'a option) \<times> 's" where
  "with_stmt enter exit block s =
     (case enter s of
        (Inl e, s1) \<Rightarrow> (Inl e, s1)
      | (Inr v, s1) \<Rightarrow>
          (case block v s1 of
             (Inr r, s2) \<Rightarrow>
               (case exit None s2 of
                  (Inl e', s3) \<Rightarrow> (Inl e', s3)
                | (Inr ret, s3) \<Rightarrow> (Inr (Some r), s3))
           | (Inl e, s2) \<Rightarrow>
               (case exit (Some e) s2 of
                  (Inl e', s3) \<Rightarrow> (Inl e', s3)
                | (Inr ret, s3) \<Rightarrow> if truthy ret then (Inr None, s3) else (Inl e, s3))))"

text \<open>\<^verbatim>\<open>with index as v: block\<close> for an \<open>Index\<close>.\<close>

definition with_Index ::
  "('w, 'db, 'cfg, 'doc, 'mt, 'e) collab \<Rightarrow> 'db Index
    \<Rightarrow> ('db Index \<Rightarrow> ('w, 'db, 'cfg, 'mt) state \<Rightarrow> ('e + 'a) \<times> ('w, 'db, 'cfg, 'mt) state)
    \<Rightarrow> ('w, 'db, 'cfg, 'mt) state \<Rightarrow> ('e + 'a option) \<times> ('w, 'db, 'cfg, 'mt) state" where
  "with_Index c self block s = with_stmt (Index_enter self) (Index_exit c self) block s"

subsection \<open>class DefaultIndexDriver\<close>

datatype DefaultIndexDriver = DefaultIndexDriver

definition index_driver_init :: DefaultIndexDriver where
  "index_driver_init = DefaultIndexDriver"

text \<open>
  \<^verbatim>\<open>index_driver_init()\<close> returns a driver object. Its method
  \<^verbatim>\<open>connect_to_index(config, application_name=None, validate_connection=True)\<close> is static:
  the driver it is called on plays no part.
\<close>

definition connect_to_index ::
  "DefaultIndexDriver \<Rightarrow> ('w, 'db, 'cfg, 'doc, 'mt, 'e) collab \<Rightarrow> 'cfg \<Rightarrow> string option \<Rightarrow> bool
    \<Rightarrow> ('w, 'db, 'cfg, 'mt) state \<Rightarrow> ('e + 'db Index) \<times> ('w, 'db, 'cfg, 'mt) state" where
  "connect_to_index driver c config application_name validate_connection s =
     Index_from_config c config application_name validate_connection s"

subsection \<open>The collaborators as the spec describes them\<close>

text \<open>
  Modelled from the spec: the exception classes the collaborators raise are defined
  outside this module. The spec names three kinds of error: raised by the connection
  handle during construction or validation, raised during the schema-creation step of
  \<open>initDb\<close>, and raised while adding a default metadata-type document.
\<close>

datatype error = ConnectivityError | SchemaInitializationError | DefaultSeedingError

text \<open>
  Modelled from the spec: the backing store and the connection pool behind a connection
  handle are defined outside this module. What the spec speaks of: whether the store
  accepts connections, whether the schema has been created, the idle sub-connections the
  connection handle holds (their number), and the metadata-type registry (the rows of its
  table).
\<close>

record store =
  reachable :: bool
  schema_exists :: bool
  idle_connections :: nat
  metadata_type_table :: "string list"

text \<open>
  Modelled from the spec: the class \<^verbatim>\<open>PostgresDb\<close> is defined outside this module. A
  connection handle has a canonical address and is constructed with an application label.
\<close>

datatype PostgresDb = PostgresDb URL "string option"

text \<open>
  Modelled from the spec: \<^verbatim>\<open>PostgresDb.from_config\<close> (datacube.drivers.postgres) is
  defined outside this module. The spec: construct-from-configuration takes an
  application-identifying label and a flag to validate connectivity eagerly; if the flag is
  true the connection handle must confirm connectivity before returning, if false
  connectivity is deferred to first use; a failure is a connectivity error. The
  configuration is the address of the store.
\<close>

definition spec_from_config ::
  "URL \<Rightarrow> string option \<Rightarrow> bool \<Rightarrow> store \<Rightarrow> (error + PostgresDb) \<times> store" where
  "spec_from_config config application_name validate_connection w =
     (if validate_connection \<and> \<not> reachable w then (Inl ConnectivityError, w)
      else (Inr (PostgresDb config application_name), w))"

text \<open>
  Modelled from the spec: \<^verbatim>\<open>PostgresDb.init\<close> is defined outside this module. The
  spec: idempotent schema initialization returning whether this was a first-time
  initialization; an error raised during the schema-creation step is a schema
  initialization error. Schema creation fails on a store that does not accept connections.
\<close>

definition spec_init :: "PostgresDb \<Rightarrow> bool \<Rightarrow> store \<Rightarrow> (error + bool) \<times> store" where
  "spec_init d with_permissions w =
     (if \<not> reachable w then (Inl SchemaInitializationError, w)
      else (Inr (\<not> schema_exists w), w\<lparr>schema_exists := True\<rparr>))"

text \<open>
  Modelled from the spec: \<^verbatim>\<open>PostgresDb.close\<close> is defined outside this module. The
  spec: releases any idle sub-connections held by the connection handle; does not prevent
  further use; on an already-idle handle it is a no-op, and it produces no error.
\<close>

definition spec_close :: "PostgresDb \<Rightarrow> store \<Rightarrow> (error + unit) \<times> store" where
  "spec_close d w = (Inr (), w\<lparr>idle_connections := 0\<rparr>)"

text \<open>
  Modelled from the spec: the attribute \<^verbatim>\<open>PostgresDb.url\<close> is defined outside this module. The spec: the connection handle's canonical, human-readable address.
\<close>

fun spec_url :: "PostgresDb \<Rightarrow> store \<Rightarrow> URL" where
  "spec_url (PostgresDb address application_name) w = address"

text \<open>
  Modelled from the spec: \<^verbatim>\<open>MetadataTypeResource.from_doc\<close> (datacube.index.metadata_types)
  is defined outside this module. The spec: \<open>fromDoc\<close> parses a document into the
  registry's input shape. A document and a record are both the name of the metadata type.
\<close>

definition spec_from_doc :: "PostgresDb MetadataTypeResource \<Rightarrow> string \<Rightarrow> error + string" where
  "spec_from_doc m doc = Inr doc"

text \<open>
  Modelled from the spec: \<^verbatim>\<open>MetadataTypeResource.add\<close> is defined outside this module.
  The spec: \<open>add\<close> adds a record to the registry, and adding an already-present type must
  not duplicate it.
\<close>

definition spec_add ::
  "PostgresDb MetadataTypeResource \<Rightarrow> string \<Rightarrow> bool \<Rightarrow> store \<Rightarrow> (error + unit) \<times> store" where
  "spec_add m t allow_table_lock w =
     (Inr (), w\<lparr>metadata_type_table :=
                  (if t \<in> set (metadata_type_table w) then metadata_type_table w
                   else metadata_type_table w @ [t])\<rparr>)"

text \<open>
  Modelled from the spec: \<^verbatim>\<open>default_metadata_type_docs\<close> is defined outside this module. The spec: a fixed ordered set of built-in documents. Two names stand for them.
\<close>

definition spec_default_docs :: "string list" where
  "spec_default_docs = [''eo'', ''telemetry'']"

text \<open>The collaborators of the spec, together.\<close>

definition spec_collab :: "(store, PostgresDb, URL, string, string, error) collab" where
  "spec_collab =
     \<lparr>db_from_config = spec_from_config, db_init = spec_init, db_close = spec_close,
      db_url = spec_url, default_metadata_type_docs = spec_default_docs,
      metadata_types_from_doc = spec_from_doc, metadata_types_add = spec_add\<rparr>"

text \<open>
  Fault injection: the collaborators of the spec, except that the default documents are
  \<open>docs\<close>, that \<open>from_doc\<close> raises on the one document \<open>unparsable\<close> and that the
  registry's \<open>add\<close> raises on the one record \<open>rejected\<close>.
\<close>

definition faulty_collab ::
  "string \<Rightarrow> string \<Rightarrow> string list
    \<Rightarrow> (store, PostgresDb, URL, string, string, error) collab" where
  "faulty_collab unparsable rejected docs =
     spec_collab
       \<lparr>default_metadata_type_docs := docs,
        metadata_types_from_doc := (\<lambda>m doc.
           if doc = unparsable then Inl DefaultSeedingError else spec_from_doc m doc),
        metadata_types_add := (\<lambda>m t allow_table_lock w.
           if t = rejected then (Inl DefaultSeedingError, w)
           else spec_add m t allow_table_lock w)\<rparr>"

text \<open>
  Fault injection: the collaborators of the spec, except that \<open>close()\<close> of the
  connection handle raises.
\<close>

definition closefail_collab :: "(store, PostgresDb, URL, string, string, error) collab" where
  "closefail_collab = spec_collab\<lparr>db_close := (\<lambda>d w. (Inl ConnectivityError, w))\<rparr>"

text \<open>A block for a \<^verbatim>\<open>with\<close> statement: \<^verbatim>\<open>index.init_db()\<close>, with the default arguments.\<close>

definition init_block ::
  "('w, 'db, 'cfg, 'doc, 'mt, 'e) collab \<Rightarrow> 'db Index
    \<Rightarrow> ('w, 'db, 'cfg, 'mt) state \<Rightarrow> ('e + bool) \<times> ('w, 'db, 'cfg, 'mt) state" where
  "init_block c index s = Index_init_db c index True True s"

text \<open>A fresh store, and an index on a connection to it.\<close>

definition fresh_store :: store where
  "fresh_store =
     \<lparr>reachable = True, schema_exists = False, idle_connections = 0, metadata_type_table = []\<rparr>"

definition start :: "store \<Rightarrow> (store, PostgresDb, URL, string) state" where
  "start w = \<lparr>world = w, calls = []\<rparr>"

definition an_index :: "PostgresDb Index" where
  "an_index = fst (Index_init (PostgresDb ''postgresql:///datacube'' None) (start fresh_store))"

section \<open>Properties\<close>

subsection \<open>Auxiliary facts\<close>

lemma calls_record_call [simp]: "calls (record_call ev s) = calls s @ [ev]"
  by (simp add: record_call_def)

lemma world_record_call [simp]: "world (record_call ev s) = world s"
  by (simp add: record_call_def)

lemma invoke_eq:
  "invoke ev f s = (fst (f (world s)), s\<lparr>world := snd (f (world s)), calls := calls s @ [ev]\<rparr>)"
  by (simp add: invoke_def record_call_def split: prod.split)

text \<open>
  The loop over the default documents: a run over \<open>ds1 @ ds2\<close> whose first part returns
  goes on with \<open>ds2\<close> from the state the first part left.
\<close>

lemma add_default_types_append:
  "add_default_types c self ds1 s = (Inr u, s1) \<Longrightarrow>
   add_default_types c self (ds1 @ ds2) s = add_default_types c self ds2 s1"
proof (induction ds1 arbitrary: s)
  case Nil
  then show ?case by simp
next
  case (Cons d ds1)
  then show ?case
    by (auto split: sum.splits prod.splits)
qed

text \<open>
  A loop that returns has called \<open>add\<close> once for every document, in the order of the
  list, and the world is what these calls made of it.
\<close>

lemma add_default_types_returns:
  "add_default_types c self docs s = (Inr u, s') \<Longrightarrow>
   calls s' = calls s @ map (\<lambda>doc. Call_add (metadata_types self)
                 (projr (metadata_types_from_doc c (metadata_types self) doc)) True) docs
   \<and> world s' = foldl (\<lambda>w doc. snd (metadata_types_add c (metadata_types self)
                 (projr (metadata_types_from_doc c (metadata_types self) doc)) True w)) (world s) docs"
proof (induction docs arbitrary: s)
  case Nil
  then show ?case by simp
next
  case (Cons d docs)
  then show ?case
    by (auto simp: invoke_eq split: sum.splits prod.splits)
qed

text \<open>
  Whatever the outcome, the calls of the loop are the \<open>add\<close> calls for the first \<open>k\<close>
  documents, in the order of the list.
\<close>

lemma add_default_types_prefix:
  "\<exists>k \<le> length docs.
     calls (snd (add_default_types c self docs s)) =
       calls s @ map (\<lambda>doc. Call_add (metadata_types self)
                 (projr (metadata_types_from_doc c (metadata_types self) doc)) True) (take k docs)"
proof (induction docs arbitrary: s)
  case Nil
  then show ?case by simp
next
  case (Cons d docs)
  show ?case
  proof (cases "metadata_types_from_doc c (metadata_types self) d")
    case (Inl e)
    then have "calls (snd (add_default_types c self (d # docs) s)) = calls s @ map (\<lambda>doc. Call_add (metadata_types self)
                 (projr (metadata_types_from_doc c (metadata_types self) doc)) True) (take 0 (d # docs))"
      by simp
    then show ?thesis by blast
  next
    case (Inr t)
    show ?thesis
    proof (cases "fst (metadata_types_add c (metadata_types self) t True (world s))")
      case (Inl e)
      with Inr have "calls (snd (add_default_types c self (d # docs) s)) = calls s @ map (\<lambda>doc. Call_add (metadata_types self)
                 (projr (metadata_types_from_doc c (metadata_types self) doc)) True) (take 1 (d # docs))"
        by (simp add: invoke_eq)
      moreover have "1 \<le> length (d # docs)" by simp
      ultimately show ?thesis by blast
    next
      case (Inr u)
      define s1 where "s1 = s\<lparr>world := snd (metadata_types_add c (metadata_types self) t True (world s)),
                               calls := calls s @ [Call_add (metadata_types self) t True]\<rparr>"
      from Cons.IH [of s1] obtain k where k: "k \<le> length docs"
        "calls (snd (add_default_types c self docs s1)) =
           calls s1 @ map (\<lambda>doc. Call_add (metadata_types self)
                 (projr (metadata_types_from_doc c (metadata_types self) doc)) True) (take k docs)"
        by blast
      from Inr \<open>metadata_types_from_doc c (metadata_types self) d = Inr t\<close>
      have "add_default_types c self (d # docs) s = add_default_types c self docs s1"
        by (simp add: invoke_eq s1_def)
      with k \<open>metadata_types_from_doc c (metadata_types self) d = Inr t\<close>
      have "calls (snd (add_default_types c self (d # docs) s)) = calls s @ map (\<lambda>doc. Call_add (metadata_types self)
                 (projr (metadata_types_from_doc c (metadata_types self) doc)) True) (take (Suc k) (d # docs))"
        by (simp add: s1_def)
      moreover have "Suc k \<le> length (d # docs)" using k by simp
      ultimately show ?thesis by blast
    qed
  qed
qed

text \<open>
  When every document parses and every \<open>add\<close> returns in the world the earlier ones left, the
  loop returns, having called \<open>add\<close> once for every document.
\<close>

lemma add_default_types_all:
  "(\<forall>i < length docs.
      (\<exists>t. metadata_types_from_doc c (metadata_types self) (docs ! i) = Inr t)
      \<and> fst (metadata_types_add c (metadata_types self)
               (projr (metadata_types_from_doc c (metadata_types self) (docs ! i))) True
               (foldl (\<lambda>w doc. snd (metadata_types_add c (metadata_types self)
                         (projr (metadata_types_from_doc c (metadata_types self) doc)) True w))
                  (world s) (take i docs))) = Inr ()) \<Longrightarrow>
   add_default_types c self docs s =
     (Inr (),
      s\<lparr>world := foldl (\<lambda>w doc. snd (metadata_types_add c (metadata_types self)
                         (projr (metadata_types_from_doc c (metadata_types self) doc)) True w))
                  (world s) docs,
        calls := calls s @ map (\<lambda>doc. Call_add (metadata_types self)
                   (projr (metadata_types_from_doc c (metadata_types self) doc)) True) docs\<rparr>)"
proof (induction docs arbitrary: s)
  case Nil
  then show ?case by simp
next
  case (Cons d docs)
  let ?step = "\<lambda>w doc. snd (metadata_types_add c (metadata_types self)
                 (projr (metadata_types_from_doc c (metadata_types self) doc)) True w)"
  from Cons.prems [rule_format, of 0]
  obtain t where t: "metadata_types_from_doc c (metadata_types self) d = Inr t"
    and ok: "fst (metadata_types_add c (metadata_types self) t True (world s)) = Inr ()"
    by auto
  define s1 where "s1 = s\<lparr>world := snd (metadata_types_add c (metadata_types self) t True (world s)),
                           calls := calls s @ [Call_add (metadata_types self) t True]\<rparr>"
  have step: "add_default_types c self (d # docs) s = add_default_types c self docs s1"
    using t ok by (simp add: invoke_eq s1_def)
  have "\<forall>i < length docs.
      (\<exists>t. metadata_types_from_doc c (metadata_types self) (docs ! i) = Inr t)
      \<and> fst (metadata_types_add c (metadata_types self)
               (projr (metadata_types_from_doc c (metadata_types self) (docs ! i))) True
               (foldl ?step (world s1) (take i docs))) = Inr ()"
  proof (intro allI impI)
    fix i assume "i < length docs"
    then have "Suc i < length (d # docs)" by simp
    from Cons.prems [rule_format, OF this] t show
      "(\<exists>t. metadata_types_from_doc c (metadata_types self) (docs ! i) = Inr t)
      \<and> fst (metadata_types_add c (metadata_types self)
               (projr (metadata_types_from_doc c (metadata_types self) (docs ! i))) True
               (foldl ?step (world s1) (take i docs))) = Inr ()"
      by (simp add: s1_def)
  qed
  from Cons.IH [OF this] step t show ?case
    by (simp add: s1_def)
qed

subsection \<open>Facts about the collaborators of the spec\<close>

lemma spec_collab_simps [simp]:
  "db_from_config spec_collab = spec_from_config"
  "db_init spec_collab = spec_init"
  "db_close spec_collab = spec_close"
  "db_url spec_collab = spec_url"
  "default_metadata_type_docs spec_collab = spec_default_docs"
  "metadata_types_from_doc spec_collab = spec_from_doc"
  "metadata_types_add spec_collab = spec_add"
  by (simp_all add: spec_collab_def)

lemma faulty_collab_simps [simp]:
  "db_from_config (faulty_collab unparsable rejected docs) = spec_from_config"
  "db_init (faulty_collab unparsable rejected docs) = spec_init"
  "db_close (faulty_collab unparsable rejected docs) = spec_close"
  "db_url (faulty_collab unparsable rejected docs) = spec_url"
  "default_metadata_type_docs (faulty_collab unparsable rejected docs) = docs"
  "metadata_types_from_doc (faulty_collab unparsable rejected docs) m doc =
     (if doc = unparsable then Inl DefaultSeedingError else Inr doc)"
  "metadata_types_add (faulty_collab unparsable rejected docs) m t allow_table_lock w =
     (if t = rejected then (Inl DefaultSeedingError, w) else spec_add m t allow_table_lock w)"
  by (simp_all add: faulty_collab_def spec_collab_def spec_from_doc_def)

lemma closefail_collab_simps [simp]:
  "db_from_config closefail_collab = spec_from_config"
  "db_init closefail_collab = spec_init"
  "db_close closefail_collab d w = (Inl ConnectivityError, w)"
  "db_url closefail_collab = spec_url"
  "default_metadata_type_docs closefail_collab = spec_default_docs"
  "metadata_types_from_doc closefail_collab = spec_from_doc"
  "metadata_types_add closefail_collab = spec_add"
  by (simp_all add: closefail_collab_def spec_collab_def)

lemma spec_url_eq:
  "spec_url d w = (case d of PostgresDb address application_name \<Rightarrow> address)"
  by (cases d) simp

lemma spec_add_default_types_returns:
  "fst (add_default_types spec_collab self docs s) = Inr ()"
  by (induction docs arbitrary: s) (simp_all add: spec_from_doc_def spec_add_def invoke_eq)

lemma spec_init_db_result:
  "fst (Index_init_db spec_collab self with_default_types with_permissions s) =
     (if \<not> reachable (world s) then Inl SchemaInitializationError
      else Inr (\<not> schema_exists (world s)))"
proof -
  have loop: "\<exists>s2. add_default_types spec_collab self docs s0 = (Inr (), s2)"
    for docs and s0 :: "(store, PostgresDb, URL, string) state"
    using spec_add_default_types_returns [of self docs s0]
    by (cases "add_default_types spec_collab self docs s0") simp
  show ?thesis
  proof (cases "reachable (world s) \<and> \<not> schema_exists (world s) \<and> with_default_types")
    case True
    from loop obtain s2 where
      "add_default_types spec_collab self spec_default_docs
         (record_call (Call_info ''Adding default metadata types.'')
           (s\<lparr>world := world s\<lparr>schema_exists := True\<rparr>,
              calls := calls s @ [Call_init (Index_db self) with_permissions]\<rparr>)) = (Inr (), s2)"
      by blast
    with True show ?thesis
      by (simp add: Index_init_db_def invoke_eq spec_init_def)
  next
    case False
    then show ?thesis
      by (auto simp: Index_init_db_def invoke_eq spec_init_def)
  qed
qed

lemma an_index_eq:
  "an_index =
     \<lparr>Index_db = PostgresDb ''postgresql:///datacube'' None,
      users = UserResource (PostgresDb ''postgresql:///datacube'' None),
      metadata_types = MetadataTypeResource (PostgresDb ''postgresql:///datacube'' None),
      products = ProductResource (PostgresDb ''postgresql:///datacube'' None)
        (MetadataTypeResource (PostgresDb ''postgresql:///datacube'' None)),
      datasets = DatasetResource (PostgresDb ''postgresql:///datacube'' None)
        (ProductResource (PostgresDb ''postgresql:///datacube'' None)
          (MetadataTypeResource (PostgresDb ''postgresql:///datacube'' None)))\<rparr>"
  by (simp add: an_index_def Index_init_def Let_def)

lemma an_index_simps [simp]:
  "Index_db an_index = PostgresDb ''postgresql:///datacube'' None"
  "metadata_types an_index = MetadataTypeResource (PostgresDb ''postgresql:///datacube'' None)"
  by (simp_all add: an_index_eq)

subsection \<open>First-use initialization\<close>

text \<open>
  Claim C1. Let the connection handle's \<open>init\<close> return the boolean \<open>is_new\<close>.
  \<^item> Unless \<open>is_new\<close> and \<open>with_default_types\<close> are both true, \<open>init_db\<close> returns \<open>is_new\<close>,
    its only call is the one to \<open>init\<close>, and the world is as \<open>init\<close> left it: no default
    document is added. This covers \<open>with_default_types = False\<close> on a fresh store (\<open>init\<close>
    reports \<open>True\<close>, which is returned) and an already-initialized store (\<open>init\<close> reports
    \<open>False\<close>) with either flag.
  \<^item> When both are true, the message is logged and the calls after it are \<open>add\<close> calls for
    the first \<open>k\<close> default documents; and when every default document parses and every
    \<open>add\<close> returns in the world the earlier ones left, \<open>init_db\<close> returns \<open>is_new\<close> after one
    \<open>add\<close> for every default document, in a world changed by all of them.
  \<^item> Whenever \<open>init_db\<close> returns, it returns exactly \<open>is_new\<close>, and then the default
    documents have all been added if \<open>is_new\<close> and \<open>with_default_types\<close> are both true, and
    none of them otherwise.
\<close>

theorem init_db_returns_is_new:
  assumes "db_init c (Index_db self) with_permissions (world s) = (Inr is_new, w)"
  shows
    "(\<not> (is_new \<and> with_default_types) \<longrightarrow>
        Index_init_db c self with_default_types with_permissions s =
          (Inr is_new,
           s\<lparr>world := w, calls := calls s @ [Call_init (Index_db self) with_permissions]\<rparr>))
     \<and> (is_new \<and> with_default_types \<longrightarrow>
          (\<exists>k \<le> length (default_metadata_type_docs c).
             calls (snd (Index_init_db c self with_default_types with_permissions s)) =
               calls s @ [Call_init (Index_db self) with_permissions,
                          Call_info ''Adding default metadata types.'']
                 @ map (\<lambda>doc. Call_add (metadata_types self)
                          (projr (metadata_types_from_doc c (metadata_types self) doc)) True)
                     (take k (default_metadata_type_docs c))))
     \<and> (is_new \<and> with_default_types
          \<and> (\<forall>i < length (default_metadata_type_docs c).
                (\<exists>t. metadata_types_from_doc c (metadata_types self)
                        (default_metadata_type_docs c ! i) = Inr t)
                \<and> fst (metadata_types_add c (metadata_types self)
                         (projr (metadata_types_from_doc c (metadata_types self)
                                   (default_metadata_type_docs c ! i))) True
                         (foldl (\<lambda>w doc. snd (metadata_types_add c (metadata_types self)
                                   (projr (metadata_types_from_doc c (metadata_types self) doc))
                                   True w))
                            w (take i (default_metadata_type_docs c)))) = Inr ()) \<longrightarrow>
        Index_init_db c self with_default_types with_permissions s =
          (Inr is_new,
           s\<lparr>world := foldl (\<lambda>w doc. snd (metadata_types_add c (metadata_types self)
                                   (projr (metadata_types_from_doc c (metadata_types self) doc))
                                   True w))
                            w (default_metadata_type_docs c),
             calls := calls s @ [Call_init (Index_db self) with_permissions,
                                 Call_info ''Adding default metadata types.'']
                        @ map (\<lambda>doc. Call_add (metadata_types self)
                                 (projr (metadata_types_from_doc c (metadata_types self) doc)) True)
                            (default_metadata_type_docs c)\<rparr>))
     \<and> (\<forall>r s'. Index_init_db c self with_default_types with_permissions s = (Inr r, s') \<longrightarrow>
          r = is_new
          \<and> calls s' =
              calls s @ Call_init (Index_db self) with_permissions #
                (if is_new \<and> with_default_types
                 then Call_info ''Adding default metadata types.'' #
                      map (\<lambda>doc. Call_add (metadata_types self)
                             (projr (metadata_types_from_doc c (metadata_types self) doc)) True)
                        (default_metadata_type_docs c)
                 else [])
          \<and> world s' =
              (if is_new \<and> with_default_types
               then foldl (\<lambda>w doc. snd (metadata_types_add c (metadata_types self)
                             (projr (metadata_types_from_doc c (metadata_types self) doc)) True w))
                      w (default_metadata_type_docs c)
               else w))"
proof -
  let ?docs = "default_metadata_type_docs c"
  let ?f = "\<lambda>doc. Call_add (metadata_types self)
              (projr (metadata_types_from_doc c (metadata_types self) doc)) True"
  let ?step = "\<lambda>w doc. snd (metadata_types_add c (metadata_types self)
                 (projr (metadata_types_from_doc c (metadata_types self) doc)) True w)"
  let ?s1 = "s\<lparr>world := w, calls := calls s @ [Call_init (Index_db self) with_permissions]\<rparr>"
  let ?s2 = "s\<lparr>world := w, calls := calls s @ [Call_init (Index_db self) with_permissions,
                      Call_info ''Adding default metadata types.'']\<rparr>"
  let ?loop = "add_default_types c self ?docs ?s2"
  have inv: "invoke (Call_init (Index_db self) with_permissions)
               (db_init c (Index_db self) with_permissions) s = (Inr is_new, ?s1)"
    using assms by (simp add: invoke_eq)
  have skip: "Index_init_db c self with_default_types with_permissions s = (Inr is_new, ?s1)"
    if "\<not> (is_new \<and> with_default_types)"
    using inv that by (auto simp: Index_init_db_def)
  have run: "Index_init_db c self with_default_types with_permissions s =
               (case ?loop of (Inl e, s2) \<Rightarrow> (Inl e, s2) | (Inr u, s2) \<Rightarrow> (Inr is_new, s2))"
    if "is_new \<and> with_default_types"
    using inv that
    by (auto simp: Index_init_db_def record_call_def split: prod.splits sum.splits)
  have prefix: "\<exists>k \<le> length ?docs.
             calls (snd (Index_init_db c self with_default_types with_permissions s)) =
               calls s @ [Call_init (Index_db self) with_permissions,
                          Call_info ''Adding default metadata types.'']
                 @ map ?f (take k ?docs)"
    if h: "is_new \<and> with_default_types"
  proof -
    have "snd (Index_init_db c self with_default_types with_permissions s) = snd ?loop"
      by (simp add: run [OF h] split: prod.splits sum.splits)
    with add_default_types_prefix [of ?docs c self ?s2] show ?thesis
      by simp
  qed
  have all: "Index_init_db c self with_default_types with_permissions s =
          (Inr is_new,
           s\<lparr>world := foldl ?step w ?docs,
             calls := calls s @ [Call_init (Index_db self) with_permissions,
                                 Call_info ''Adding default metadata types.'']
                        @ map ?f ?docs\<rparr>)"
    if h: "is_new \<and> with_default_types"
      and ok: "\<forall>i < length ?docs.
                (\<exists>t. metadata_types_from_doc c (metadata_types self) (?docs ! i) = Inr t)
                \<and> fst (metadata_types_add c (metadata_types self)
                         (projr (metadata_types_from_doc c (metadata_types self) (?docs ! i)))
                         True (foldl ?step w (take i ?docs))) = Inr ()"
  proof -
    from ok have "\<forall>i < length ?docs.
                (\<exists>t. metadata_types_from_doc c (metadata_types self) (?docs ! i) = Inr t)
                \<and> fst (metadata_types_add c (metadata_types self)
                         (projr (metadata_types_from_doc c (metadata_types self) (?docs ! i)))
                         True (foldl ?step (world ?s2) (take i ?docs))) = Inr ()"
      by simp
    from add_default_types_all [OF this] show ?thesis
      by (simp add: run [OF h])
  qed
  have ret: "r = is_new
          \<and> calls s' =
              calls s @ Call_init (Index_db self) with_permissions #
                (if is_new \<and> with_default_types
                 then Call_info ''Adding default metadata types.'' # map ?f ?docs else [])
          \<and> world s' = (if is_new \<and> with_default_types then foldl ?step w ?docs else w)"
    if r: "Index_init_db c self with_default_types with_permissions s = (Inr r, s')" for r s'
  proof (cases "is_new \<and> with_default_types")
    case False
    with skip r show ?thesis by auto
  next
    case True
    from r run [OF True] have "r = is_new" "\<exists>u. ?loop = (Inr u, s')"
      by (auto split: prod.splits sum.splits)
    then obtain u where "?loop = (Inr u, s')" by blast
    from add_default_types_returns [OF this] True \<open>r = is_new\<close> show ?thesis
      by simp
  qed
  from skip prefix all ret show ?thesis by blast
qed

text \<open>
  On a fresh store of the spec: without default types \<open>init_db\<close> returns \<open>True\<close> and the
  metadata-type table stays empty; on an initialized store it returns \<open>False\<close> and adds
  nothing although default types are requested; on a fresh store with default types it
  returns \<open>True\<close> and the table holds the two built-in documents.
\<close>

theorem init_db_returns_is_new_witness:
  "Index_init_db spec_collab an_index False True (start fresh_store) =
     (Inr True,
      \<lparr>world = \<lparr>reachable = True, schema_exists = True, idle_connections = 0,
                metadata_type_table = []\<rparr>,
       calls = [Call_init (PostgresDb ''postgresql:///datacube'' None) True]\<rparr>)
   \<and> Index_init_db spec_collab an_index True True (start (fresh_store\<lparr>schema_exists := True\<rparr>)) =
     (Inr False,
      \<lparr>world = \<lparr>reachable = True, schema_exists = True, idle_connections = 0,
                metadata_type_table = []\<rparr>,
       calls = [Call_init (PostgresDb ''postgresql:///datacube'' None) True]\<rparr>)
   \<and> Index_init_db spec_collab an_index True True (start fresh_store) =
     (Inr True,
      \<lparr>world = \<lparr>reachable = True, schema_exists = True, idle_connections = 0,
                metadata_type_table = [''eo'', ''telemetry'']\<rparr>,
       calls = [Call_init (PostgresDb ''postgresql:///datacube'' None) True,
                Call_info ''Adding default metadata types.'',
                Call_add (MetadataTypeResource (PostgresDb ''postgresql:///datacube'' None))
                  ''eo'' True,
                Call_add (MetadataTypeResource (PostgresDb ''postgresql:///datacube'' None))
                  ''telemetry'' True]\<rparr>)"
proof -
  have h1: "db_init spec_collab (Index_db an_index) True (world (start fresh_store)) =
              (Inr True, fresh_store\<lparr>schema_exists := True\<rparr>)"
    by (simp add: spec_init_def start_def fresh_store_def)
  have h2: "db_init spec_collab (Index_db an_index) True
              (world (start (fresh_store\<lparr>schema_exists := True\<rparr>))) =
              (Inr False, fresh_store\<lparr>schema_exists := True\<rparr>)"
    by (simp add: spec_init_def start_def fresh_store_def)
  from init_db_returns_is_new [OF h1, where with_default_types = False]
  have a: "Index_init_db spec_collab an_index False True (start fresh_store) =
     (Inr True,
      \<lparr>world = \<lparr>reachable = True, schema_exists = True, idle_connections = 0,
                metadata_type_table = []\<rparr>,
       calls = [Call_init (PostgresDb ''postgresql:///datacube'' None) True]\<rparr>)"
    by (simp add: start_def fresh_store_def)
  from init_db_returns_is_new [OF h2, where with_default_types = True]
  have b: "Index_init_db spec_collab an_index True True
             (start (fresh_store\<lparr>schema_exists := True\<rparr>)) =
     (Inr False,
      \<lparr>world = \<lparr>reachable = True, schema_exists = True, idle_connections = 0,
                metadata_type_table = []\<rparr>,
       calls = [Call_init (PostgresDb ''postgresql:///datacube'' None) True]\<rparr>)"
    by (simp add: start_def fresh_store_def)
  from init_db_returns_is_new [OF h1, where with_default_types = True]
  have c: "Index_init_db spec_collab an_index True True (start fresh_store) =
     (Inr True,
      \<lparr>world = \<lparr>reachable = True, schema_exists = True, idle_connections = 0,
                metadata_type_table = [''eo'', ''telemetry'']\<rparr>,
       calls = [Call_init (PostgresDb ''postgresql:///datacube'' None) True,
                Call_info ''Adding default metadata types.'',
                Call_add (MetadataTypeResource (PostgresDb ''postgresql:///datacube'' None))
                  ''eo'' True,
                Call_add (MetadataTypeResource (PostgresDb ''postgresql:///datacube'' None))
                  ''telemetry'' True]\<rparr>)"
    by (simp add: spec_default_docs_def spec_from_doc_def spec_add_def start_def
        fresh_store_def All_less_Suc)
  from a b c show ?thesis by simp
qed

text \<open>
  Claim C5. Let \<open>init\<close> report a first-time initialization and let default types be
  requested. Then every call \<open>init_db\<close> makes after \<open>init\<close> and the log message is an
  \<open>add\<close> on the index's metadata-type registry with \<open>allow_table_lock = True\<close>, for the
  parsed default documents, in the order of the list, one call per document, and when
  \<open>init_db\<close> returns there has been one such call for every default document; the world is
  then the world \<open>init\<close> left, changed by these \<open>add\<close> calls in that order.
\<close>

theorem init_db_seeds_in_order:
  assumes "db_init c (Index_db self) with_permissions (world s) = (Inr True, w)"
  shows
    "(\<exists>k \<le> length (default_metadata_type_docs c).
        calls (snd (Index_init_db c self True with_permissions s)) =
          calls s @ [Call_init (Index_db self) with_permissions,
                     Call_info ''Adding default metadata types.'']
            @ map (\<lambda>doc. Call_add (metadata_types self)
                     (projr (metadata_types_from_doc c (metadata_types self) doc)) True)
                (take k (default_metadata_type_docs c)))
     \<and> (\<forall>r s'. Index_init_db c self True with_permissions s = (Inr r, s') \<longrightarrow>
          calls s' =
            calls s @ [Call_init (Index_db self) with_permissions,
                       Call_info ''Adding default metadata types.'']
              @ map (\<lambda>doc. Call_add (metadata_types self)
                       (projr (metadata_types_from_doc c (metadata_types self) doc)) True)
                  (default_metadata_type_docs c)
          \<and> world s' =
              foldl (\<lambda>w doc. snd (metadata_types_add c (metadata_types self)
                       (projr (metadata_types_from_doc c (metadata_types self) doc)) True w))
                w (default_metadata_type_docs c))"
proof -
  let ?s2 = "s\<lparr>world := w, calls := calls s @ [Call_init (Index_db self) with_permissions,
                      Call_info ''Adding default metadata types.'']\<rparr>"
  let ?loop = "add_default_types c self (default_metadata_type_docs c) ?s2"
  have run: "Index_init_db c self True with_permissions s =
               (case ?loop of (Inl e, s2) \<Rightarrow> (Inl e, s2) | (Inr u, s2) \<Rightarrow> (Inr True, s2))"
    using assms by (simp add: Index_init_db_def invoke_eq record_call_def)
  have "snd (Index_init_db c self True with_permissions s) = snd ?loop"
    by (simp add: run split: prod.splits sum.splits)
  with add_default_types_prefix [of "default_metadata_type_docs c" c self ?s2]
  have prefix: "\<exists>k \<le> length (default_metadata_type_docs c).
        calls (snd (Index_init_db c self True with_permissions s)) =
          calls s @ [Call_init (Index_db self) with_permissions,
                     Call_info ''Adding default metadata types.'']
            @ map (\<lambda>doc. Call_add (metadata_types self)
                     (projr (metadata_types_from_doc c (metadata_types self) doc)) True)
                (take k (default_metadata_type_docs c))"
    by simp
  have whole: "calls s' =
            calls s @ [Call_init (Index_db self) with_permissions,
                       Call_info ''Adding default metadata types.'']
              @ map (\<lambda>doc. Call_add (metadata_types self)
                       (projr (metadata_types_from_doc c (metadata_types self) doc)) True)
                  (default_metadata_type_docs c)
          \<and> world s' =
              foldl (\<lambda>w doc. snd (metadata_types_add c (metadata_types self)
                       (projr (metadata_types_from_doc c (metadata_types self) doc)) True w))
                w (default_metadata_type_docs c)"
    if "Index_init_db c self True with_permissions s = (Inr r, s')" for r s'
  proof -
    from that run have "\<exists>u. ?loop = (Inr u, s')"
      by (auto split: prod.splits sum.splits)
    then obtain u where "?loop = (Inr u, s')" by blast
    from add_default_types_returns [OF this] show ?thesis by simp
  qed
  from prefix whole show ?thesis by blast
qed

text \<open>
  On a fresh store of the spec the two built-in documents are added, in their order.
\<close>

theorem init_db_seeds_in_order_witness:
  "db_init spec_collab (Index_db an_index) True (world (start fresh_store)) =
     (Inr True, fresh_store\<lparr>schema_exists := True\<rparr>)
   \<and> fst (Index_init_db spec_collab an_index True True (start fresh_store)) = Inr True
   \<and> calls (snd (Index_init_db spec_collab an_index True True (start fresh_store))) =
       [Call_init (PostgresDb ''postgresql:///datacube'' None) True,
        Call_info ''Adding default metadata types.'',
        Call_add (MetadataTypeResource (PostgresDb ''postgresql:///datacube'' None))
          ''eo'' True,
        Call_add (MetadataTypeResource (PostgresDb ''postgresql:///datacube'' None))
          ''telemetry'' True]
   \<and> metadata_type_table
         (world (snd (Index_init_db spec_collab an_index True True (start fresh_store)))) =
       [''eo'', ''telemetry'']"
proof -
  let ?run = "Index_init_db spec_collab an_index True True (start fresh_store)"
  have h: "db_init spec_collab (Index_db an_index) True (world (start fresh_store)) =
             (Inr True, fresh_store\<lparr>schema_exists := True\<rparr>)"
    by (simp add: spec_init_def start_def fresh_store_def)
  have returns: "fst ?run = Inr True"
    by (simp add: spec_init_db_result start_def fresh_store_def)
  then have "?run = (Inr True, snd ?run)"
    by (simp add: prod_eq_iff)
  with init_db_seeds_in_order [OF h]
  have "calls (snd ?run) =
          calls (start fresh_store) @ [Call_init (Index_db an_index) True,
                     Call_info ''Adding default metadata types.'']
            @ map (\<lambda>doc. Call_add (metadata_types an_index)
                     (projr (metadata_types_from_doc spec_collab (metadata_types an_index) doc))
                     True)
                (default_metadata_type_docs spec_collab)
        \<and> world (snd ?run) =
            foldl (\<lambda>w doc. snd (metadata_types_add spec_collab (metadata_types an_index)
                     (projr (metadata_types_from_doc spec_collab (metadata_types an_index) doc))
                     True w))
              (fresh_store\<lparr>schema_exists := True\<rparr>) (default_metadata_type_docs spec_collab)"
    by blast
  with h returns show ?thesis
    by (simp add: spec_default_docs_def spec_from_doc_def spec_add_def start_def fresh_store_def)
qed

text \<open>
  Claim C6. An exception of the connection handle's \<open>init\<close> is the outcome of \<open>init_db\<close>:
  the same exception, no further call, the world as the failed \<open>init\<close> left it. When the
  default documents are \<open>ds1 @ doc # ds2\<close>, the documents \<open>ds1\<close> have been added and left the
  state \<open>s1\<close>, and \<open>doc\<close> fails, either in \<open>from_doc\<close> or in \<open>add\<close>, then the outcome of
  \<open>init_db\<close> is that same exception and the state is \<open>s1\<close>, changed by nothing but the
  failing \<open>add\<close> call itself: what \<open>ds1\<close> added stays, nothing is called again and nothing
  is called for \<open>ds2\<close>.
\<close>

theorem init_db_errors_propagate:
  "(db_init c (Index_db self) with_permissions (world s) = (Inl e, w) \<longrightarrow>
      Index_init_db c self with_default_types with_permissions s =
        (Inl e, s\<lparr>world := w, calls := calls s @ [Call_init (Index_db self) with_permissions]\<rparr>))
   \<and> (db_init c (Index_db self) with_permissions (world s) = (Inr True, w)
        \<and> default_metadata_type_docs c = ds1 @ doc # ds2
        \<and> add_default_types c self ds1
            (s\<lparr>world := w, calls := calls s @ [Call_init (Index_db self) with_permissions,
                      Call_info ''Adding default metadata types.'']\<rparr>) = (Inr (), s1) \<longrightarrow>
      world s1 =
        foldl (\<lambda>w doc. snd (metadata_types_add c (metadata_types self)
                 (projr (metadata_types_from_doc c (metadata_types self) doc)) True w)) w ds1
      \<and> calls s1 =
          calls s @ [Call_init (Index_db self) with_permissions,
                     Call_info ''Adding default metadata types.'']
            @ map (\<lambda>doc. Call_add (metadata_types self)
                     (projr (metadata_types_from_doc c (metadata_types self) doc)) True) ds1
      \<and> (metadata_types_from_doc c (metadata_types self) doc = Inl e \<longrightarrow>
         Index_init_db c self True with_permissions s = (Inl e, s1))
      \<and> (metadata_types_from_doc c (metadata_types self) doc = Inr t
           \<and> metadata_types_add c (metadata_types self) t True (world s1) = (Inl e, w1) \<longrightarrow>
         Index_init_db c self True with_permissions s =
           (Inl e, s1\<lparr>world := w1, calls := calls s1 @ [Call_add (metadata_types self) t True]\<rparr>)))"
proof -
  let ?s2 = "s\<lparr>world := w, calls := calls s @ [Call_init (Index_db self) with_permissions,
                      Call_info ''Adding default metadata types.'']\<rparr>"
  have a: "db_init c (Index_db self) with_permissions (world s) = (Inl e, w) \<longrightarrow>
      Index_init_db c self with_default_types with_permissions s =
        (Inl e, s\<lparr>world := w, calls := calls s @ [Call_init (Index_db self) with_permissions]\<rparr>)"
    by (simp add: Index_init_db_def invoke_eq)
  have b: "Index_init_db c self True with_permissions s =
             (case add_default_types c self (doc # ds2) s1 of
                (Inl e, s2) \<Rightarrow> (Inl e, s2) | (Inr u, s2) \<Rightarrow> (Inr True, s2))"
    if "db_init c (Index_db self) with_permissions (world s) = (Inr True, w)"
      and "default_metadata_type_docs c = ds1 @ doc # ds2"
      and "add_default_types c self ds1 ?s2 = (Inr (), s1)"
    using that add_default_types_append [OF that(3), of "doc # ds2"]
    by (simp add: Index_init_db_def invoke_eq record_call_def)
  have c: "world s1 =
        foldl (\<lambda>w doc. snd (metadata_types_add c (metadata_types self)
                 (projr (metadata_types_from_doc c (metadata_types self) doc)) True w)) w ds1
      \<and> calls s1 =
          calls s @ [Call_init (Index_db self) with_permissions,
                     Call_info ''Adding default metadata types.'']
            @ map (\<lambda>doc. Call_add (metadata_types self)
                     (projr (metadata_types_from_doc c (metadata_types self) doc)) True) ds1"
    if "add_default_types c self ds1 ?s2 = (Inr (), s1)"
    using add_default_types_returns [OF that] by simp
  have d: "Index_init_db c self True with_permissions s = (Inl e, s1)"
    if "db_init c (Index_db self) with_permissions (world s) = (Inr True, w)"
      and "default_metadata_type_docs c = ds1 @ doc # ds2"
      and "add_default_types c self ds1 ?s2 = (Inr (), s1)"
      and "metadata_types_from_doc c (metadata_types self) doc = Inl e"
    using b [OF that(1-3)] that(4) by simp
  have e: "Index_init_db c self True with_permissions s =
             (Inl e, s1\<lparr>world := w1, calls := calls s1 @ [Call_add (metadata_types self) t True]\<rparr>)"
    if "db_init c (Index_db self) with_permissions (world s) = (Inr True, w)"
      and "default_metadata_type_docs c = ds1 @ doc # ds2"
      and "add_default_types c self ds1 ?s2 = (Inr (), s1)"
      and "metadata_types_from_doc c (metadata_types self) doc = Inr t"
      and "metadata_types_add c (metadata_types self) t True (world s1) = (Inl e, w1)"
    using b [OF that(1-3)] that(4,5) by (simp add: invoke_eq)
  from a c d e show ?thesis by blast
qed

text \<open>
  With the collaborators of the spec: a store that does not accept connections fails
  \<open>init\<close>; with an unparsable or a rejected second document the first document stays in
  the metadata-type table and the third is never added.
\<close>

theorem init_db_errors_propagate_witness:
  "Index_init_db spec_collab an_index True True (start (fresh_store\<lparr>reachable := False\<rparr>)) =
     (Inl SchemaInitializationError,
      \<lparr>world = fresh_store\<lparr>reachable := False\<rparr>,
       calls = [Call_init (PostgresDb ''postgresql:///datacube'' None) True]\<rparr>)
   \<and> Index_init_db (faulty_collab ''broken'' ''rejected'' [''eo'', ''broken'', ''telemetry''])
        an_index True True (start fresh_store) =
     (Inl DefaultSeedingError,
      \<lparr>world = \<lparr>reachable = True, schema_exists = True, idle_connections = 0,
                metadata_type_table = [''eo'']\<rparr>,
       calls = [Call_init (PostgresDb ''postgresql:///datacube'' None) True,
                Call_info ''Adding default metadata types.'',
                Call_add (MetadataTypeResource (PostgresDb ''postgresql:///datacube'' None))
                  ''eo'' True]\<rparr>)
   \<and> Index_init_db (faulty_collab ''broken'' ''rejected'' [''eo'', ''rejected'', ''telemetry''])
        an_index True True (start fresh_store) =
     (Inl DefaultSeedingError,
      \<lparr>world = \<lparr>reachable = True, schema_exists = True, idle_connections = 0,
                metadata_type_table = [''eo'']\<rparr>,
       calls = [Call_init (PostgresDb ''postgresql:///datacube'' None) True,
                Call_info ''Adding default metadata types.'',
                Call_add (MetadataTypeResource (PostgresDb ''postgresql:///datacube'' None))
                  ''eo'' True,
                Call_add (MetadataTypeResource (PostgresDb ''postgresql:///datacube'' None))
                  ''rejected'' True]\<rparr>)"
proof -
  let ?d = "PostgresDb ''postgresql:///datacube'' None"
  let ?s1 = "\<lparr>world = \<lparr>reachable = True, schema_exists = True, idle_connections = 0,
                        metadata_type_table = [''eo'']\<rparr>,
               calls = [Call_init ?d True, Call_info ''Adding default metadata types.'',
                        Call_add (MetadataTypeResource ?d) ''eo'' True]\<rparr>"
  have a: "Index_init_db spec_collab an_index True True (start (fresh_store\<lparr>reachable := False\<rparr>)) =
     (Inl SchemaInitializationError,
      \<lparr>world = fresh_store\<lparr>reachable := False\<rparr>,
       calls = [Call_init (PostgresDb ''postgresql:///datacube'' None) True]\<rparr>)"
    using init_db_errors_propagate [of spec_collab an_index True
        "start (fresh_store\<lparr>reachable := False\<rparr>)" SchemaInitializationError
        "fresh_store\<lparr>reachable := False\<rparr>" True]
    by (simp add: spec_init_def start_def fresh_store_def)
  have b: "Index_init_db (faulty_collab ''broken'' ''rejected'' [''eo'', ''broken'', ''telemetry''])
        an_index True True (start fresh_store) = (Inl DefaultSeedingError, ?s1)"
    using init_db_errors_propagate [of
        "faulty_collab ''broken'' ''rejected'' [''eo'', ''broken'', ''telemetry'']" an_index True
        "start fresh_store" DefaultSeedingError "fresh_store\<lparr>schema_exists := True\<rparr>"
        True "[''eo'']" "''broken''" "[''telemetry'']" ?s1]
    by (simp add: spec_init_def spec_add_def invoke_eq start_def fresh_store_def)
  have c: "Index_init_db (faulty_collab ''broken'' ''rejected'' [''eo'', ''rejected'', ''telemetry''])
        an_index True True (start fresh_store) =
          (Inl DefaultSeedingError,
           ?s1\<lparr>calls := calls ?s1 @ [Call_add (MetadataTypeResource ?d) ''rejected'' True]\<rparr>)"
    using init_db_errors_propagate [of
        "faulty_collab ''broken'' ''rejected'' [''eo'', ''rejected'', ''telemetry'']" an_index True
        "start fresh_store" DefaultSeedingError "fresh_store\<lparr>schema_exists := True\<rparr>"
        True "[''eo'']" "''rejected''" "[''telemetry'']" ?s1 "''rejected''" "world ?s1"]
    by (simp add: spec_init_def spec_add_def invoke_eq start_def fresh_store_def)
  from a b c show ?thesis by simp
qed

subsection \<open>Construction\<close>

text \<open>
  Claim C3. Constructing an index from a connection handle \<open>d\<close> makes four constructor
  calls in the order users, metadata types, products, datasets, so the metadata-type
  registry is constructed before the product registry and the product registry before the
  dataset registry; the product registry is given the metadata-type registry of the index,
  the dataset registry the product registry of the index, and every manager and the index
  itself hold the one handle \<open>d\<close>. The world is not touched.
\<close>

theorem Index_init_wiring:
  "Index_db (fst (Index_init d s)) = d
   \<and> users (fst (Index_init d s)) = UserResource d
   \<and> metadata_types (fst (Index_init d s)) = MetadataTypeResource d
   \<and> products (fst (Index_init d s)) = ProductResource d (metadata_types (fst (Index_init d s)))
   \<and> datasets (fst (Index_init d s)) = DatasetResource d (products (fst (Index_init d s)))
   \<and> calls (snd (Index_init d s)) =
       calls s @ [New_UserResource d, New_MetadataTypeResource d,
                  New_ProductResource d (metadata_types (fst (Index_init d s))),
                  New_DatasetResource d (products (fst (Index_init d s)))]
   \<and> world (snd (Index_init d s)) = world s"
  by (simp add: Index_init_def Let_def)

text \<open>
  Claim C4. \<open>from_config\<close> calls the connection handle's \<open>from_config\<close> once, with the
  configuration, the application label and the validation flag as it got them. If that call
  raises, \<open>from_config\<close> raises the same exception and constructs nothing; otherwise it
  returns the index wired on the handle that call returned, constructed after the call. In
  particular with \<open>validate_connection = True\<close> an index is returned only after the connection
  handle was asked to validate and returned. There is no second call: no retry.
\<close>

theorem from_config_outcome:
  "Index_from_config c config application_name validate_connection s =
     (case db_from_config c config application_name validate_connection (world s) of
        (Inl e, w) \<Rightarrow>
          (Inl e, s\<lparr>world := w,
                    calls := calls s @
                      [Call_from_config config application_name validate_connection]\<rparr>)
      | (Inr d, w) \<Rightarrow>
          (Inr \<lparr>Index_db = d, users = UserResource d,
                metadata_types = MetadataTypeResource d,
                products = ProductResource d (MetadataTypeResource d),
                datasets = DatasetResource d (ProductResource d (MetadataTypeResource d))\<rparr>,
           s\<lparr>world := w,
             calls := calls s @
               [Call_from_config config application_name validate_connection,
                New_UserResource d, New_MetadataTypeResource d,
                New_ProductResource d (MetadataTypeResource d),
                New_DatasetResource d (ProductResource d (MetadataTypeResource d))]\<rparr>))"
  by (simp add: Index_from_config_def Index_init_def invoke_eq record_call_def Let_def
      split: sum.splits prod.splits)

text \<open>
  With the connection handle of the spec: validation against a store that does not accept
  connections raises the connectivity error; against one that does, the index is returned.
\<close>

theorem from_config_outcome_witness:
  "Index_from_config spec_collab ''postgresql:///datacube'' (Some ''ingest'') True
     (start (fresh_store\<lparr>reachable := False\<rparr>)) =
     (Inl ConnectivityError,
      \<lparr>world = fresh_store\<lparr>reachable := False\<rparr>,
       calls = [Call_from_config ''postgresql:///datacube'' (Some ''ingest'') True]\<rparr>)
   \<and> fst (Index_from_config spec_collab ''postgresql:///datacube'' None True
            (start fresh_store)) = Inr an_index"
  using from_config_outcome [of spec_collab "''postgresql:///datacube''" "Some ''ingest''" True
      "start (fresh_store\<lparr>reachable := False\<rparr>)"]
    from_config_outcome [of spec_collab "''postgresql:///datacube''" None True
      "start fresh_store"]
  by (simp add: spec_from_config_def start_def fresh_store_def an_index_eq)

text \<open>
  Claim C9. \<open>connect_to_index\<close> of the default index driver has the outcome and the effect
  of \<open>Index.from_config\<close> with the same three arguments.
\<close>

theorem connect_to_index_delegates:
  "connect_to_index index_driver_init c config application_name validate_connection s =
     Index_from_config c config application_name validate_connection s"
  by (simp add: connect_to_index_def)

subsection \<open>Scoped acquisition\<close>

text \<open>
  Claim C2. Whatever the block does, complete or raise, the \<open>with\<close> statement on an index
  makes, after the block, exactly one more call: \<open>close()\<close> on the index's connection handle;
  the world at the end is the world the block left, as changed by that \<open>close()\<close>.
\<close>

theorem with_Index_always_closes:
  "calls (snd (with_Index c self block s)) =
     calls (snd (block self s)) @ [Call_close (Index_db self)]
   \<and> world (snd (with_Index c self block s)) =
       snd (db_close c (Index_db self) (world (snd (block self s))))"
  by (simp add: with_Index_def with_stmt_def Index_enter_def Index_exit_def Index_close_def
      invoke_eq split: sum.splits prod.splits)

text \<open>
  A block that raises (first use of a store that does not accept connections) and a block
  that completes: \<open>close()\<close> is the last call in both.
\<close>

theorem with_Index_always_closes_witness:
  "calls (snd (with_Index spec_collab an_index
                 (\<lambda>index. Index_init_db spec_collab index True True)
                 (start (fresh_store\<lparr>reachable := False\<rparr>)))) =
     [Call_init (PostgresDb ''postgresql:///datacube'' None) True,
      Call_close (PostgresDb ''postgresql:///datacube'' None)]
   \<and> calls (snd (with_Index spec_collab an_index
                 (\<lambda>index. Index_init_db spec_collab index False True)
                 (start fresh_store))) =
     [Call_init (PostgresDb ''postgresql:///datacube'' None) True,
      Call_close (PostgresDb ''postgresql:///datacube'' None)]"
  using with_Index_always_closes
    [of spec_collab an_index "\<lambda>index. Index_init_db spec_collab index True True"
      "start (fresh_store\<lparr>reachable := False\<rparr>)"]
    with_Index_always_closes
    [of spec_collab an_index "\<lambda>index. Index_init_db spec_collab index False True"
      "start fresh_store"]
  by (simp add: Index_init_db_def invoke_eq spec_init_def start_def fresh_store_def)

text \<open>
  Claim C10 says that after \<open>close()\<close> runs the error of the block is the one that reaches
  the caller. With a connection handle whose \<open>close()\<close> raises this is not so: the block
  raises a schema-initialization error, \<open>__exit__\<close> does not return, and the \<^verbatim>\<open>with\<close>
  statement raises the connectivity error of \<open>close()\<close>.
\<close>

theorem with_Index_close_raises_counterexample:
  "init_block closefail_collab an_index (start (fresh_store\<lparr>reachable := False\<rparr>)) =
     (Inl SchemaInitializationError,
      \<lparr>world = fresh_store\<lparr>reachable := False\<rparr>,
       calls = [Call_init (PostgresDb ''postgresql:///datacube'' None) True]\<rparr>)
   \<and> with_Index closefail_collab an_index (init_block closefail_collab)
        (start (fresh_store\<lparr>reachable := False\<rparr>)) =
     (Inl ConnectivityError,
      \<lparr>world = fresh_store\<lparr>reachable := False\<rparr>,
       calls = [Call_init (PostgresDb ''postgresql:///datacube'' None) True,
                Call_close (PostgresDb ''postgresql:///datacube'' None)]\<rparr>)
   \<and> fst (with_Index closefail_collab an_index (init_block closefail_collab)
            (start (fresh_store\<lparr>reachable := False\<rparr>))) \<noteq> Inl SchemaInitializationError
   \<and> fst (Index_exit closefail_collab an_index (Some SchemaInitializationError)
            \<lparr>world = fresh_store\<lparr>reachable := False\<rparr>,
             calls = [Call_init (PostgresDb ''postgresql:///datacube'' None) True]\<rparr>) =
       Inl ConnectivityError"
  by (simp add: with_Index_def with_stmt_def Index_enter_def Index_exit_def Index_close_def
      init_block_def Index_init_db_def invoke_eq spec_init_def start_def fresh_store_def)

text \<open>
  Claim C10, amended. \<open>__enter__\<close> returns the index itself and changes nothing. Whatever
  exception is passed to \<open>__exit__\<close>: when \<open>close()\<close> returns, \<open>__exit__\<close> returns \<open>None\<close>, and a
  value it returns is never true; when \<open>close()\<close> raises, \<open>__exit__\<close> raises the same. So when
  the block raises, the \<^verbatim>\<open>with\<close> statement always raises as well: the very exception of the
  block when the \<open>close()\<close> that \<open>__exit__\<close> runs returns, the exception of \<open>close()\<close> when it
  raises; in both cases in the state \<open>close()\<close> left.
\<close>

theorem with_Index_never_suppresses:
  "Index_enter self s = (Inr self, s)
   \<and> (\<forall>exc ret s'. Index_exit c self exc s = (Inr ret, s') \<longrightarrow> \<not> truthy ret)
   \<and> (\<forall>exc u s'. Index_close c self s = (Inr u, s') \<longrightarrow>
         Index_exit c self exc s = (Inr PyNone, s'))
   \<and> (\<forall>exc e' s'. Index_close c self s = (Inl e', s') \<longrightarrow>
         Index_exit c self exc s = (Inl e', s'))
   \<and> (\<forall>e s1. block self s = (Inl e, s1) \<longrightarrow>
        (\<exists>e'. fst (with_Index c self block s) = Inl e')
        \<and> (\<forall>u s2. Index_close c self s1 = (Inr u, s2) \<longrightarrow>
              with_Index c self block s = (Inl e, s2))
        \<and> (\<forall>e' s2. Index_close c self s1 = (Inl e', s2) \<longrightarrow>
              with_Index c self block s = (Inl e', s2)))"
  by (auto simp: with_Index_def with_stmt_def Index_enter_def Index_exit_def
      split: sum.splits prod.splits)

text \<open>
  A block that raises on a store that does not accept connections: with the \<open>close()\<close> of the
  spec the error of the block is the outcome, with a \<open>close()\<close> that raises the error of
  \<open>close()\<close> is.
\<close>

theorem with_Index_never_suppresses_witness:
  "init_block spec_collab an_index (start (fresh_store\<lparr>reachable := False\<rparr>)) =
     (Inl SchemaInitializationError,
      \<lparr>world = fresh_store\<lparr>reachable := False\<rparr>,
       calls = [Call_init (PostgresDb ''postgresql:///datacube'' None) True]\<rparr>)
   \<and> Index_close spec_collab an_index
        \<lparr>world = fresh_store\<lparr>reachable := False\<rparr>,
         calls = [Call_init (PostgresDb ''postgresql:///datacube'' None) True]\<rparr> =
     (Inr (),
      \<lparr>world = fresh_store\<lparr>reachable := False\<rparr>,
       calls = [Call_init (PostgresDb ''postgresql:///datacube'' None) True,
                Call_close (PostgresDb ''postgresql:///datacube'' None)]\<rparr>)
   \<and> with_Index spec_collab an_index (init_block spec_collab)
        (start (fresh_store\<lparr>reachable := False\<rparr>)) =
     (Inl SchemaInitializationError,
      \<lparr>world = fresh_store\<lparr>reachable := False\<rparr>,
       calls = [Call_init (PostgresDb ''postgresql:///datacube'' None) True,
                Call_close (PostgresDb ''postgresql:///datacube'' None)]\<rparr>)
   \<and> Index_close closefail_collab an_index
        \<lparr>world = fresh_store\<lparr>reachable := False\<rparr>,
         calls = [Call_init (PostgresDb ''postgresql:///datacube'' None) True]\<rparr> =
     (Inl ConnectivityError,
      \<lparr>world = fresh_store\<lparr>reachable := False\<rparr>,
       calls = [Call_init (PostgresDb ''postgresql:///datacube'' None) True,
                Call_close (PostgresDb ''postgresql:///datacube'' None)]\<rparr>)
   \<and> with_Index closefail_collab an_index (init_block closefail_collab)
        (start (fresh_store\<lparr>reachable := False\<rparr>)) =
     (Inl ConnectivityError,
      \<lparr>world = fresh_store\<lparr>reachable := False\<rparr>,
       calls = [Call_init (PostgresDb ''postgresql:///datacube'' None) True,
                Call_close (PostgresDb ''postgresql:///datacube'' None)]\<rparr>)"
proof -
  let ?d = "PostgresDb ''postgresql:///datacube'' None"
  let ?s = "start (fresh_store\<lparr>reachable := False\<rparr>)"
  let ?s1 = "\<lparr>world = fresh_store\<lparr>reachable := False\<rparr>, calls = [Call_init ?d True]\<rparr>"
  let ?s2 = "\<lparr>world = fresh_store\<lparr>reachable := False\<rparr>,
              calls = [Call_init ?d True, Call_close ?d]\<rparr>"
  have raised: "init_block spec_collab an_index ?s = (Inl SchemaInitializationError, ?s1)"
    by (simp add: init_block_def Index_init_db_def invoke_eq spec_init_def start_def
        fresh_store_def)
  have raised': "init_block closefail_collab an_index ?s = (Inl SchemaInitializationError, ?s1)"
    by (simp add: init_block_def Index_init_db_def invoke_eq spec_init_def start_def
        fresh_store_def)
  have closed: "Index_close spec_collab an_index ?s1 = (Inr (), ?s2)"
    by (simp add: Index_close_def invoke_eq spec_close_def fresh_store_def)
  have unclosed: "Index_close closefail_collab an_index ?s1 = (Inl ConnectivityError, ?s2)"
    by (simp add: Index_close_def invoke_eq fresh_store_def)
  from with_Index_never_suppresses [of an_index ?s spec_collab "init_block spec_collab"]
    raised closed
  have a: "with_Index spec_collab an_index (init_block spec_collab) ?s =
             (Inl SchemaInitializationError, ?s2)"
    by blast
  from with_Index_never_suppresses
    [of an_index ?s closefail_collab "init_block closefail_collab"] raised' unclosed
  have b: "with_Index closefail_collab an_index (init_block closefail_collab) ?s =
             (Inl ConnectivityError, ?s2)"
    by blast
  from raised closed unclosed a b show ?thesis by simp
qed

subsection \<open>Release and address\<close>

text \<open>
  Claim C7. With the connection handle of the spec, whose \<open>close()\<close> releases the idle
  sub-connections: \<open>close()\<close> on an index returns without error, a second \<open>close()\<close> right
  after it returns without error as well and leaves the world as the first one left it; and
  after \<open>close()\<close> the index is still usable: \<open>init_db\<close> has the outcome it would have had,
  and \<open>url\<close> is what it was. (The list of calls is the record of what was called, not part
  of the state of the handle or of its connection.)
\<close>

theorem close_idempotent:
  "fst (Index_close spec_collab self s) = Inr ()
   \<and> fst (Index_close spec_collab self (snd (Index_close spec_collab self s))) = Inr ()
   \<and> world (snd (Index_close spec_collab self (snd (Index_close spec_collab self s)))) =
       world (snd (Index_close spec_collab self s))
   \<and> fst (Index_init_db spec_collab self with_default_types with_permissions
            (snd (Index_close spec_collab self s))) =
       fst (Index_init_db spec_collab self with_default_types with_permissions s)
   \<and> Index_url spec_collab self (snd (Index_close spec_collab self s)) =
       Index_url spec_collab self s"
  by (simp add: spec_init_db_result Index_close_def Index_url_def invoke_eq spec_close_def
      spec_url_eq)

text \<open>
  Claim C8. \<open>url\<close> is the address of the index's connection handle, for any collaborators,
  and right after construction it is the address of the handle the index was constructed
  from. With the connection handle of the spec, \<open>close()\<close> on an index does not change
  \<open>url\<close>, in particular not right after construction.
\<close>

theorem url_read_only:
  "Index_url c self s = db_url c (Index_db self) (world s)
   \<and> Index_url c (fst (Index_init d s)) (snd (Index_init d s)) = db_url c d (world s)
   \<and> Index_url spec_collab self' (snd (Index_close spec_collab self' s')) =
       Index_url spec_collab self' s'
   \<and> Index_url spec_collab (fst (Index_init d' s'))
        (snd (Index_close spec_collab (fst (Index_init d' s')) (snd (Index_init d' s')))) =
       Index_url spec_collab (fst (Index_init d' s')) (snd (Index_init d' s'))"
  by (simp add: Index_close_def Index_url_def Index_init_def Let_def invoke_eq spec_close_def
      spec_url_eq)

end
